theory Spec2Isabelle
  imports Main "HOL-Library.Word"
begin

section \<open>Data model of the RPN builder (src/Storages/MergeTree/RPNBuilder.cpp)\<close>

text \<open>
  Every throw, failed assertion and undefined dereference of the source is a value of
  \<open>error\<close>; a function that can fail returns \<open>error + 'a\<close> with \<open>Inl\<close> the failure.
\<close>

datatype error =
    LOGICAL_ERROR
  | BAD_CAST
  | NOT_FOUND_COLUMN_IN_BLOCK
  | NOT_IMPLEMENTED
  | NullPointerDereference
  | EmptyContainerAccess
  | OutOfRange
  | AssertionFailed

text \<open>A \<open>Field\<close> is the tagged scalar of a literal or of a constant column; it has a null state.\<close>

datatype Field = Null | UInt64 "64 word" | Int64 "64 word" | Str string

definition isNull :: "Field \<Rightarrow> bool" where
  "isNull f = (f = Null)"

text \<open>
  Modelled from the spec: the data types (DataTypes/, not under src/). A type is a plain type
  or the nullability wrapper around a plain type; \<open>removeNullable\<close> removes the wrapper.
\<close>

datatype PlainType = TNothing | TUInt8 | TUInt64 | TInt64 | TString

datatype DataType = Plain PlainType | Nullable PlainType

fun isNullable :: "DataType \<Rightarrow> bool" where
  "isNullable (Nullable t) = True"
| "isNullable (Plain t) = False"

fun removeNullable :: "DataType \<Rightarrow> DataType" where
  "removeNullable (Nullable t) = Plain t"
| "removeNullable (Plain t) = Plain t"

text \<open>
  Modelled from the spec: a prepared set (Interpreters/Set.h, not under src/) is tagged with
  per-position element types and a readiness flag. \<open>areTypesEqual\<close> compares the element
  type at a set-internal index with an expected type; an index with no element type does not
  compare equal.
\<close>

record Set =
  data_types :: "DataType list"
  isCreated :: bool

definition areTypesEqual :: "Set \<Rightarrow> nat \<Rightarrow> DataType \<Rightarrow> bool" where
  "areTypesEqual s set_type_idx other_type =
     (set_type_idx < length (data_types s) \<and> data_types s ! set_type_idx = other_type)"

text \<open>
  Modelled from the spec: the columns the source inspects (Columns/, not under src/):
  a column of values, a column holding a materialized set, and the constant wrapper around a
  data column together with its row count. A constant column is a single repeated value, so
  each of its rows is the first row of the wrapped column; a set column is opaque and holds
  no value.
\<close>

datatype Column = ColumnVector "Field list" | ColumnSet Set | ColumnConst Column nat

fun isColumnConst :: "Column \<Rightarrow> bool" where
  "isColumnConst (ColumnConst d n) = True"
| "isColumnConst c = False"

fun column_at :: "Column \<Rightarrow> nat \<Rightarrow> error + Field" where
  "column_at (ColumnVector fs) i = (if i < length fs then Inr (fs ! i) else Inl OutOfRange)"
| "column_at (ColumnSet s) i = Inl NOT_IMPLEMENTED"
| "column_at (ColumnConst d n) i = column_at d 0"

text \<open>\<open>ActionsDAG::Node\<close>: the fields the source reads. Pointers that may be null are options.\<close>

datatype ActionType = INPUT | COLUMN | ALIAS | ARRAY_JOIN | FUNCTION

datatype Node = Node
  (node_type: ActionType)
  (children: "Node list")
  (result_name: string)
  (result_type: DataType)
  (function_base: "string option")
  (node_column: "Column option")

text \<open>
  Modelled from the spec: the syntax tree (Parsers/, not under src/): literal, identifier,
  function call, subquery and table reference. The last string of a constructor is the
  alias (empty when there is none); a subquery carries the name it is known by.
\<close>

datatype AST =
    ASTLiteral Field string
  | ASTIdentifier string string
  | ASTFunction string "AST list" string
  | ASTSubquery string string
  | ASTTableIdentifier string string

section \<open>Canonical naming\<close>

text \<open>
  The loop over the arguments of a function node: a separator before every argument but the
  first. The list holds what the recursive calls wrote; the first failure ends the loop.
\<close>

fun append_arguments :: "bool \<Rightarrow> (error + string) list \<Rightarrow> error + string" where
  "append_arguments first [] = Inr []"
| "append_arguments first (r # rs) =
     (case r of
        Inl e \<Rightarrow> Inl e
      | Inr s \<Rightarrow>
          (case append_arguments False rs of
             Inl e \<Rightarrow> Inl e
           | Inr t \<Rightarrow> Inr ((if first then [] else '', '') @ s @ t)))"

text \<open>
  \<open>appendColumnNameWithoutAlias\<close> on an action-graph node; the result is the text appended
  to the buffer. \<open>fv\<close> is \<open>FieldVisitorToString\<close> (Common/, not under src/), a parameter.
  \<open>children.front()\<close> of an empty vector and a null \<open>function_base\<close> are faults.
\<close>

fun appendColumnNameWithoutAlias :: "(Field \<Rightarrow> string) \<Rightarrow> Node \<Rightarrow> bool \<Rightarrow> error + string" where
  "appendColumnNameWithoutAlias fv (Node INPUT ch rn rt fb col) legacy = Inr rn"
| "appendColumnNameWithoutAlias fv (Node COLUMN ch rn rt fb col) legacy =
     (case col of
        Some (ColumnConst d n) \<Rightarrow>
          (case column_at (ColumnConst d n) 0 of Inl e \<Rightarrow> Inl e | Inr f \<Rightarrow> Inr (fv f))
      | _ \<Rightarrow> Inr rn)"
| "appendColumnNameWithoutAlias fv (Node ALIAS [] rn rt fb col) legacy = Inl EmptyContainerAccess"
| "appendColumnNameWithoutAlias fv (Node ALIAS (c # cs) rn rt fb col) legacy =
     appendColumnNameWithoutAlias fv c legacy"
| "appendColumnNameWithoutAlias fv (Node ARRAY_JOIN [] rn rt fb col) legacy = Inl EmptyContainerAccess"
| "appendColumnNameWithoutAlias fv (Node ARRAY_JOIN (c # cs) rn rt fb col) legacy =
     (case appendColumnNameWithoutAlias fv c legacy of
        Inl e \<Rightarrow> Inl e
      | Inr s \<Rightarrow> Inr (''arrayJoin('' @ s @ '')''))"
| "appendColumnNameWithoutAlias fv (Node FUNCTION ch rn rt fb col) legacy =
     (case fb of
        None \<Rightarrow> Inl NullPointerDereference
      | Some fname \<Rightarrow>
          (case append_arguments True (map (\<lambda>arg. appendColumnNameWithoutAlias fv arg legacy) ch) of
             Inl e \<Rightarrow> Inl e
           | Inr s \<Rightarrow>
               Inr ((if legacy \<and> fname = ''modulo'' then ''moduleLegacy'' else fname)
                    @ ''('' @ s @ '')'')))"

definition getColumnNameWithoutAlias :: "(Field \<Rightarrow> string) \<Rightarrow> Node \<Rightarrow> bool \<Rightarrow> error + string" where
  "getColumnNameWithoutAlias fv node legacy = appendColumnNameWithoutAlias fv node legacy"

text \<open>
  Modelled from the spec: the syntax tree's own naming methods (\<open>IAST::getColumnNameWithoutAlias\<close>
  and \<open>IAST::getColumnName\<close>, not under src/). The spec calls the first "an equivalent
  canonicalization ... the tree's own alias-stripping name method": an identifier is its
  name, a literal is its value rendered as text, a function call is
  \<open>funcName(\<close> + comma-joined names of the arguments + \<open>)\<close>, and aliases are dropped.
  \<open>getColumnName\<close> uses the alias if there is one (RPNBuilder.cpp:202).
\<close>

fun comma_join :: "string list \<Rightarrow> string" where
  "comma_join [] = []"
| "comma_join [s] = s"
| "comma_join (s # t # ss) = s @ '', '' @ comma_join (t # ss)"

fun ast_getColumnNameWithoutAlias :: "(Field \<Rightarrow> string) \<Rightarrow> AST \<Rightarrow> string" where
  "ast_getColumnNameWithoutAlias fv (ASTLiteral v al) = fv v"
| "ast_getColumnNameWithoutAlias fv (ASTIdentifier n al) = n"
| "ast_getColumnNameWithoutAlias fv (ASTFunction f args al) =
     f @ ''('' @ comma_join (map (ast_getColumnNameWithoutAlias fv) args) @ '')''"
| "ast_getColumnNameWithoutAlias fv (ASTSubquery n al) = n"
| "ast_getColumnNameWithoutAlias fv (ASTTableIdentifier n al) = n"

fun ast_alias :: "AST \<Rightarrow> string" where
  "ast_alias (ASTLiteral v al) = al"
| "ast_alias (ASTIdentifier n al) = al"
| "ast_alias (ASTFunction f args al) = al"
| "ast_alias (ASTSubquery n al) = al"
| "ast_alias (ASTTableIdentifier n al) = al"

definition ast_getColumnName :: "(Field \<Rightarrow> string) \<Rightarrow> AST \<Rightarrow> string" where
  "ast_getColumnName fv a =
     (if ast_alias a \<noteq> [] then ast_alias a else ast_getColumnNameWithoutAlias fv a)"

text \<open>
  Modelled from the spec: \<open>KeyDescription::moduloToModuloLegacyRecursive\<close> (not under src/),
  "a legacy-renaming utility that rewrites \<open>modulo\<close> calls to their legacy name within a
  cloned subtree"; the legacy name of the spec is \<open>moduleLegacy\<close>. The model returns the
  rewritten clone.
\<close>

fun moduloToModuloLegacyRecursive :: "AST \<Rightarrow> AST" where
  "moduloToModuloLegacyRecursive (ASTFunction f args al) =
     ASTFunction (if f = ''modulo'' then ''moduleLegacy'' else f)
       (map moduloToModuloLegacyRecursive args) al"
| "moduloToModuloLegacyRecursive a = a"

section \<open>Tree context and generic node\<close>

text \<open>
  Modelled from the spec: the constant block (\<open>Block\<close>, Core/, not under src/), named
  columns looked up by name; \<open>getByName\<close> of an absent name throws.
\<close>

record ColumnWithTypeAndName =
  column :: "Column option"
  type :: DataType
  name :: string

type_synonym Block = "ColumnWithTypeAndName list"

definition has :: "Block \<Rightarrow> string \<Rightarrow> bool" where
  "has block n = (find (\<lambda>e. name e = n) block \<noteq> None)"

definition getByName :: "Block \<Rightarrow> string \<Rightarrow> error + ColumnWithTypeAndName" where
  "getByName block n =
     (case find (\<lambda>e. name e = n) block of
        None \<Rightarrow> Inl NOT_FOUND_COLUMN_IN_BLOCK
      | Some e \<Rightarrow> Inr e)"

text \<open>
  Modelled from the spec: the prepared-set registry (\<open>PreparedSets\<close>, Interpreters/, not under
  src/), "a hash-indexed collection of precomputed membership sets, keyed by the originating
  sub-expression's structural hash"; a key is that hash together with element types (none
  for a subquery key). The structural hash of a syntax tree (\<open>IAST::getTreeHash\<close>) is a
  parameter \<open>th\<close> of the lookups.
\<close>

record PreparedSetKey =
  ast_hash :: nat
  types :: "DataType list"

definition forSubquery :: "nat \<Rightarrow> PreparedSetKey" where
  "forSubquery h = \<lparr>ast_hash = h, types = []\<rparr>"

definition forLiteral :: "nat \<Rightarrow> DataType list \<Rightarrow> PreparedSetKey" where
  "forLiteral h ts = \<lparr>ast_hash = h, types = ts\<rparr>"

type_synonym PreparedSets = "(PreparedSetKey \<times> Set) list"

definition get :: "PreparedSets \<Rightarrow> PreparedSetKey \<Rightarrow> Set option" where
  "get sets key = map_of sets key"

definition getByTreeHash :: "PreparedSets \<Rightarrow> nat \<Rightarrow> Set list" where
  "getByTreeHash sets h = map snd (filter (\<lambda>it. ast_hash (fst it) = h) sets)"

record RPNBuilderTreeContext =
  block_with_constants :: Block
  prepared_sets :: "PreparedSets option"

text \<open>The generic node: two pointers, of which the constructors set exactly one.\<close>

record RPNBuilderTreeNode =
  ast_node :: "AST option"
  dag_node :: "Node option"
  tree_context :: RPNBuilderTreeContext

definition RPNBuilderTreeNode_dag :: "Node \<Rightarrow> RPNBuilderTreeContext \<Rightarrow> RPNBuilderTreeNode" where
  "RPNBuilderTreeNode_dag d ctx = \<lparr>ast_node = None, dag_node = Some d, tree_context = ctx\<rparr>"

definition RPNBuilderTreeNode_ast :: "AST \<Rightarrow> RPNBuilderTreeContext \<Rightarrow> RPNBuilderTreeNode" where
  "RPNBuilderTreeNode_ast a ctx = \<lparr>ast_node = Some a, dag_node = None, tree_context = ctx\<rparr>"

definition well_formed :: "RPNBuilderTreeNode \<Rightarrow> bool" where
  "well_formed n = ((ast_node n = None) \<noteq> (dag_node n = None))"

definition getColumnName :: "(Field \<Rightarrow> string) \<Rightarrow> RPNBuilderTreeNode \<Rightarrow> error + string" where
  "getColumnName fv n =
     (case ast_node n of
        Some a \<Rightarrow> Inr (ast_getColumnNameWithoutAlias fv a)
      | None \<Rightarrow>
          (case dag_node n of
             None \<Rightarrow> Inl NullPointerDereference
           | Some d \<Rightarrow> getColumnNameWithoutAlias fv d False))"

definition getColumnNameWithModuloLegacy :: "(Field \<Rightarrow> string) \<Rightarrow> RPNBuilderTreeNode \<Rightarrow> error + string" where
  "getColumnNameWithModuloLegacy fv n =
     (case ast_node n of
        Some a \<Rightarrow> Inr (ast_getColumnNameWithoutAlias fv (moduloToModuloLegacyRecursive a))
      | None \<Rightarrow>
          (case dag_node n of
             None \<Rightarrow> Inl NullPointerDereference
           | Some d \<Rightarrow> getColumnNameWithoutAlias fv d True))"

section \<open>Node classifier and constant extractor\<close>

text \<open>
  \<open>isConstant\<close>. Dereferencing the column pointer of a block entry is a fault when it is
  null; the action-graph branch tests the pointer first.
\<close>

definition isConstant :: "(Field \<Rightarrow> string) \<Rightarrow> RPNBuilderTreeNode \<Rightarrow> error + bool" where
  "isConstant fv n =
     (case ast_node n of
        Some a \<Rightarrow>
          (case a of
             ASTLiteral v al \<Rightarrow> Inr True
           | _ \<Rightarrow>
               (let column_name = ast_getColumnName fv a;
                    block = block_with_constants (tree_context n)
                in if has block column_name then
                     (case getByName block column_name of
                        Inl e \<Rightarrow> Inl e
                      | Inr entry \<Rightarrow>
                          (case column entry of
                             None \<Rightarrow> Inl NullPointerDereference
                           | Some c \<Rightarrow> Inr (isColumnConst c)))
                   else Inr False))
      | None \<Rightarrow>
          (case dag_node n of
             None \<Rightarrow> Inl NullPointerDereference
           | Some d \<Rightarrow>
               (case node_column d of
                  None \<Rightarrow> Inr False
                | Some c \<Rightarrow> Inr (isColumnConst c))))"

text \<open>
  Modelled from the spec: \<open>IDataType::createColumnConst\<close> (not under src/) materializes a
  constant column holding the value; its first argument is the row count the source passes.
  \<open>ft\<close> below is \<open>FieldToDataType\<close> (DataTypes/, not under src/), a parameter.
\<close>

definition createColumnConst :: "nat \<Rightarrow> Field \<Rightarrow> Column" where
  "createColumnConst size_arg field = ColumnConst (ColumnVector [field]) size_arg"

text \<open>
  \<open>assert_cast\<close> (Common/assert_cast.h, not under src/) asserts the dynamic type of its
  argument and, unlike \<open>typeid_cast\<close>, never yields a null pointer for a non-null argument
  (the source dereferences its result unchecked in \<open>getFunctionName\<close>, \<open>getArgumentsSize\<close>
  and \<open>getArgumentAt\<close>): on a node that is not a literal it is a fault (a thrown bad cast
  where the check is compiled in, an undefined read of \<open>literal->value\<close> where it is not).
\<close>

definition assert_cast_ASTLiteral :: "AST \<Rightarrow> error + Field" where
  "assert_cast_ASTLiteral a = (case a of ASTLiteral v al \<Rightarrow> Inr v | _ \<Rightarrow> Inl BAD_CAST)"

definition getConstantColumn ::
  "(Field \<Rightarrow> string) \<Rightarrow> (Field \<Rightarrow> DataType) \<Rightarrow> RPNBuilderTreeNode \<Rightarrow> error + ColumnWithTypeAndName" where
  "getConstantColumn fv ft n =
     (case isConstant fv n of
        Inl e \<Rightarrow> Inl e
      | Inr False \<Rightarrow> Inl LOGICAL_ERROR
      | Inr True \<Rightarrow>
          (case ast_node n of
             Some a \<Rightarrow>
               (case assert_cast_ASTLiteral a of
                  Inl e \<Rightarrow> Inl e
                | Inr v \<Rightarrow>
                    Inr \<lparr>column = Some (createColumnConst 0 v), type = ft v, name = []\<rparr>)
           | None \<Rightarrow>
               (case dag_node n of
                  None \<Rightarrow> Inl NullPointerDereference
                | Some d \<Rightarrow>
                    Inr \<lparr>column = node_column d, type = result_type d, name = []\<rparr>)))"

text \<open>
  \<open>tryGetConstant\<close>: the two output parameters are passed in and returned with the flag.
\<close>

definition tryGetConstant ::
  "(Field \<Rightarrow> string) \<Rightarrow> RPNBuilderTreeNode \<Rightarrow> Field \<times> DataType \<Rightarrow> error + (bool \<times> Field \<times> DataType)" where
  "tryGetConstant fv n out =
     (case ast_node n of
        Some a \<Rightarrow>
          (let column_name = ast_getColumnName fv a;
               block = block_with_constants (tree_context n)
           in case a of
                ASTLiteral v al \<Rightarrow>
                  (let column_name' = (if \<not> has block column_name then ''_dummy'' else column_name)
                   in case getByName block column_name' of
                        Inl e \<Rightarrow> Inl e
                      | Inr entry \<Rightarrow>
                          Inr (True, v,
                               if \<not> isNull v then removeNullable (type entry) else type entry))
              | _ \<Rightarrow>
                  if has block column_name then
                    (case getByName block column_name of
                       Inl e \<Rightarrow> Inl e
                     | Inr constant_column \<Rightarrow>
                         (case column constant_column of
                            None \<Rightarrow> Inl NullPointerDereference
                          | Some c \<Rightarrow>
                              if isColumnConst c then
                                (case column_at c 0 of
                                   Inl e \<Rightarrow> Inl e
                                 | Inr v \<Rightarrow>
                                     Inr (True, v,
                                          if \<not> isNull v then removeNullable (type constant_column)
                                          else type constant_column))
                              else Inr (False, fst out, snd out)))
                  else Inr (False, fst out, snd out))
      | None \<Rightarrow>
          (case dag_node n of
             None \<Rightarrow> Inl NullPointerDereference
           | Some d \<Rightarrow>
               (case node_column d of
                  None \<Rightarrow> Inr (False, fst out, snd out)
                | Some c \<Rightarrow>
                    if isColumnConst c then
                      (case column_at c 0 of
                         Inl e \<Rightarrow> Inl e
                       | Inr v \<Rightarrow>
                           Inr (True, v,
                                if \<not> isNull v then removeNullable (result_type d)
                                else result_type d))
                    else Inr (False, fst out, snd out))))"

section \<open>Prepared-set resolver\<close>

fun tryGetSetFromDAGNode :: "Node \<Rightarrow> Set option" where
  "tryGetSetFromDAGNode d =
     (case node_column d of
        None \<Rightarrow> None
      | Some c \<Rightarrow>
          (let c' = (case c of ColumnConst data_column k \<Rightarrow> data_column | _ \<Rightarrow> c)
           in case c' of
                ColumnSet s \<Rightarrow> if isCreated s then Some s else None
              | _ \<Rightarrow> None))"

fun is_subquery_or_table :: "AST \<Rightarrow> bool" where
  "is_subquery_or_table (ASTSubquery n al) = True"
| "is_subquery_or_table (ASTTableIdentifier n al) = True"
| "is_subquery_or_table a = False"

text \<open>First overload: \<open>tryGetPreparedSet()\<close>.\<close>

definition tryGetPreparedSet :: "(AST \<Rightarrow> nat) \<Rightarrow> RPNBuilderTreeNode \<Rightarrow> Set option" where
  "tryGetPreparedSet th n =
     (case (ast_node n, prepared_sets (tree_context n)) of
        (Some a, Some sets) \<Rightarrow> find isCreated (getByTreeHash sets (th a))
      | _ \<Rightarrow>
          (case dag_node n of
             Some d \<Rightarrow> tryGetSetFromDAGNode d
           | None \<Rightarrow> None))"

text \<open>Second overload: \<open>tryGetPreparedSet(data_types)\<close>.\<close>

definition tryGetPreparedSet_types ::
  "(AST \<Rightarrow> nat) \<Rightarrow> RPNBuilderTreeNode \<Rightarrow> DataType list \<Rightarrow> Set option" where
  "tryGetPreparedSet_types th n dts =
     (case (prepared_sets (tree_context n), ast_node n) of
        (Some sets, Some a) \<Rightarrow>
          if is_subquery_or_table a then get sets (forSubquery (th a))
          else get sets (forLiteral (th a) dts)
      | _ \<Rightarrow>
          (case dag_node n of
             Some d \<Rightarrow> tryGetSetFromDAGNode d
           | None \<Rightarrow> None))"

text \<open>
  Third overload: \<open>tryGetPreparedSet(indexes_mapping, data_types)\<close>. The lambda
  \<open>types_match\<close> asserts that the two vectors have one length; the scan returns the first
  candidate it accepts. The \<open>else\<close> branch reads \<open>dag_node->column\<close> without testing
  \<open>dag_node\<close>.
\<close>

record KeyTuplePositionMapping =
  tuple_index :: nat
  key_index :: nat

definition types_match ::
  "KeyTuplePositionMapping list \<Rightarrow> DataType list \<Rightarrow> Set \<Rightarrow> error + bool" where
  "types_match indexes_mapping dts candidate_set =
     (if length indexes_mapping \<noteq> length dts then Inl AssertionFailed
      else Inr (list_all (\<lambda>i. areTypesEqual candidate_set (tuple_index (indexes_mapping ! i)) (dts ! i))
                  [0..<length indexes_mapping]))"

fun scan_sets ::
  "KeyTuplePositionMapping list \<Rightarrow> DataType list \<Rightarrow> Set list \<Rightarrow> error + Set option" where
  "scan_sets indexes_mapping dts [] = Inr None"
| "scan_sets indexes_mapping dts (s # ss) =
     (case types_match indexes_mapping dts s of
        Inl e \<Rightarrow> Inl e
      | Inr True \<Rightarrow> Inr (Some s)
      | Inr False \<Rightarrow> scan_sets indexes_mapping dts ss)"

definition tryGetPreparedSet_mapping ::
  "(AST \<Rightarrow> nat) \<Rightarrow> RPNBuilderTreeNode \<Rightarrow> KeyTuplePositionMapping list \<Rightarrow> DataType list
     \<Rightarrow> error + Set option" where
  "tryGetPreparedSet_mapping th n indexes_mapping dts =
     (case (prepared_sets (tree_context n), ast_node n) of
        (Some sets, Some a) \<Rightarrow>
          if is_subquery_or_table a then Inr (get sets (forSubquery (th a)))
          else scan_sets indexes_mapping dts (getByTreeHash sets (th a))
      | _ \<Rightarrow>
          (case dag_node n of
             None \<Rightarrow> Inl NullPointerDereference
           | Some d \<Rightarrow>
               if node_column d \<noteq> None then Inr (tryGetSetFromDAGNode d) else Inr None))"

section \<open>Definitions used to state the properties\<close>

text \<open>\<open>ast_node->as<ASTLiteral>()\<close>: the literal's value when the node is a literal.\<close>

fun as_ASTLiteral :: "AST \<Rightarrow> Field option" where
  "as_ASTLiteral (ASTLiteral v al) = Some v"
| "as_ASTLiteral a = None"

text \<open>
  Following the spec's words ("renames every occurrence of \<open>modulo(a, b)\<close> to
  \<open>moduleLegacy(a, b)\<close> recursively, leaving all other function names unchanged"): the
  renaming as a transformation of the action graph, to be compared with the \<open>legacy\<close> flag
  that the source threads through \<open>appendColumnNameWithoutAlias\<close>.
\<close>

fun renameModuloLegacy :: "Node \<Rightarrow> Node" where
  "renameModuloLegacy (Node t ch rn rt fb col) =
     Node t (map renameModuloLegacy ch) rn rt
       (if t = FUNCTION \<and> fb = Some ''modulo'' then Some ''moduleLegacy'' else fb) col"

text \<open>
  Modelled from the spec: when a syntax tree and an action-graph node are the same expression
  (the construction of the graph from the tree is not under src/). By the data model of the
  spec an identifier is an input reference of that name, a literal is a constant column
  holding its value (the node's own name may be an alias), an alias node stands for the
  expression it wraps, \<open>arrayJoin\<close> of one argument is the array-expansion node, and a
  function call is a function application of the same name on the same arguments in order.
\<close>

inductive same_expression :: "AST \<Rightarrow> Node \<Rightarrow> bool" where
  se_identifier: "same_expression (ASTIdentifier n al) (Node INPUT ch n rt fb col)"
| se_literal: "column_at d 0 = Inr v \<Longrightarrow>
     same_expression (ASTLiteral v al) (Node COLUMN ch rn rt fb (Some (ColumnConst d k)))"
| se_alias: "same_expression a d \<Longrightarrow> same_expression a (Node ALIAS [d] rn rt fb col)"
| se_array_join: "same_expression a d \<Longrightarrow>
     same_expression (ASTFunction ''arrayJoin'' [a] al) (Node ARRAY_JOIN [d] rn rt fb col)"
| se_function: "list_all2 same_expression args ch \<Longrightarrow>
     same_expression (ASTFunction f args al) (Node FUNCTION ch rn rt (Some f) col)"

code_pred same_expression .

text \<open>
  Following the spec's words ("for every position \<open>i\<close> in \<open>keyPositionMapping\<close>, the set's
  element type at that set-internal index equals \<open>expectedTypes[i]\<close>").
\<close>

definition per_position_equal :: "KeyTuplePositionMapping list \<Rightarrow> DataType list \<Rightarrow> Set \<Rightarrow> bool" where
  "per_position_equal indexes_mapping dts s =
     list_all (\<lambda>i. tuple_index (indexes_mapping ! i) < length (data_types s)
                 \<and> data_types s ! tuple_index (indexes_mapping ! i) = dts ! i)
       [0..<length indexes_mapping]"

section \<open>Canonical naming: properties\<close>

lemma legacy_is_rename:
  "appendColumnNameWithoutAlias fv d True = appendColumnNameWithoutAlias fv (renameModuloLegacy d) False"
proof (induction fv d "True" rule: appendColumnNameWithoutAlias.induct)
  case (7 fv ch rn rt fb col)
  show ?case
  proof (cases fb)
    case None
    then show ?thesis by simp
  next
    case (Some fname)
    with 7 have E: "map (\<lambda>arg. appendColumnNameWithoutAlias fv arg True) ch
        = map (\<lambda>arg. appendColumnNameWithoutAlias fv (renameModuloLegacy arg) False) ch"
      by simp
    show ?thesis unfolding Some by (simp add: E comp_def)
  qed
qed (auto split: option.splits Column.splits sum.splits)

lemma append_arguments_Inr:
  "append_arguments first (map Inr ss) = Inr ((if first \<or> ss = [] then [] else '', '') @ comma_join ss)"
  apply (induction ss arbitrary: first rule: comma_join.induct)
  apply auto
  done

lemma same_expression_name:
  "same_expression a d \<Longrightarrow>
     appendColumnNameWithoutAlias fv d False = Inr (ast_getColumnNameWithoutAlias fv a)"
proof (induction rule: same_expression.induct)
  case (se_function args ch f al rn rt col)
  then have E: "map (\<lambda>arg. appendColumnNameWithoutAlias fv arg False) ch
             = map Inr (map (ast_getColumnNameWithoutAlias fv) args)"
    by (induction args ch rule: list_all2_induct) auto
  show ?case by (simp only: appendColumnNameWithoutAlias.simps E append_arguments_Inr) simp
qed auto

section \<open>Constant extraction: the branches of the source\<close>

lemma getByName_Inr:
  "getByName block n = Inr e \<Longrightarrow> e \<in> set block \<and> name e = n"
  by (auto simp: getByName_def find_Some_iff split: option.splits)

lemma not_isNullable_removeNullable: "\<not> isNullable (removeNullable t)"
  by (cases t) auto

lemma as_ASTLiteral_Some: "as_ASTLiteral a = Some v \<Longrightarrow> \<exists>al. a = ASTLiteral v al"
  by (cases a) auto

lemma tryGetConstant_null_node:
  "ast_node n = None \<Longrightarrow> dag_node n = None \<Longrightarrow> tryGetConstant fv n out = Inl NullPointerDereference"
  by (simp add: tryGetConstant_def)

lemma tryGetConstant_dag:
  "ast_node n = None \<Longrightarrow> dag_node n = Some d \<Longrightarrow>
   tryGetConstant fv n out =
     (case node_column d of
        None \<Rightarrow> Inr (False, fst out, snd out)
      | Some c \<Rightarrow>
          if isColumnConst c then
            (case column_at c 0 of
               Inl e \<Rightarrow> Inl e
             | Inr v \<Rightarrow> Inr (True, v, if \<not> isNull v then removeNullable (result_type d) else result_type d))
          else Inr (False, fst out, snd out))"
  by (simp add: tryGetConstant_def)

lemma tryGetConstant_literal:
  "ast_node n = Some (ASTLiteral v al) \<Longrightarrow>
   tryGetConstant fv n out =
     (case getByName (block_with_constants (tree_context n))
             (if \<not> has (block_with_constants (tree_context n)) (ast_getColumnName fv (ASTLiteral v al))
              then ''_dummy'' else ast_getColumnName fv (ASTLiteral v al)) of
        Inl e \<Rightarrow> Inl e
      | Inr entry \<Rightarrow> Inr (True, v, if \<not> isNull v then removeNullable (type entry) else type entry))"
  by (simp add: tryGetConstant_def Let_def)

lemma tryGetConstant_nonliteral:
  "ast_node n = Some a \<Longrightarrow> as_ASTLiteral a = None \<Longrightarrow>
   tryGetConstant fv n out =
     (if has (block_with_constants (tree_context n)) (ast_getColumnName fv a) then
        (case getByName (block_with_constants (tree_context n)) (ast_getColumnName fv a) of
           Inl e \<Rightarrow> Inl e
         | Inr constant_column \<Rightarrow>
             (case column constant_column of
                None \<Rightarrow> Inl NullPointerDereference
              | Some c \<Rightarrow>
                  if isColumnConst c then
                    (case column_at c 0 of
                       Inl e \<Rightarrow> Inl e
                     | Inr v \<Rightarrow>
                         Inr (True, v,
                              if \<not> isNull v then removeNullable (type constant_column)
                              else type constant_column))
                  else Inr (False, fst out, snd out)))
      else Inr (False, fst out, snd out))"
  by (cases a) (simp_all add: tryGetConstant_def Let_def)

lemma isConstant_null_node:
  "ast_node n = None \<Longrightarrow> dag_node n = None \<Longrightarrow> isConstant fv n = Inl NullPointerDereference"
  by (simp add: isConstant_def)

lemma isConstant_dag:
  "ast_node n = None \<Longrightarrow> dag_node n = Some d \<Longrightarrow>
   isConstant fv n = (case node_column d of None \<Rightarrow> Inr False | Some c \<Rightarrow> Inr (isColumnConst c))"
  by (simp add: isConstant_def)

lemma isConstant_literal:
  "ast_node n = Some (ASTLiteral v al) \<Longrightarrow> isConstant fv n = Inr True"
  by (simp add: isConstant_def)

lemma isConstant_nonliteral:
  "ast_node n = Some a \<Longrightarrow> as_ASTLiteral a = None \<Longrightarrow>
   isConstant fv n =
     (if has (block_with_constants (tree_context n)) (ast_getColumnName fv a) then
        (case getByName (block_with_constants (tree_context n)) (ast_getColumnName fv a) of
           Inl e \<Rightarrow> Inl e
         | Inr entry \<Rightarrow>
             (case column entry of
                None \<Rightarrow> Inl NullPointerDereference
              | Some c \<Rightarrow> Inr (isColumnConst c)))
      else Inr False)"
  by (cases a) (simp_all add: isConstant_def Let_def)

lemma tryGetConstant_false_unchanged:
  "tryGetConstant fv n (v, t) = Inr (False, v', t') \<Longrightarrow> v' = v \<and> t' = t \<and> isConstant fv n = Inr False"
proof (cases "ast_node n")
  case None
  assume r: "tryGetConstant fv n (v, t) = Inr (False, v', t')"
  show ?thesis
  proof (cases "dag_node n")
    case dn: None
    with None r show ?thesis by (simp add: tryGetConstant_null_node)
  next
    case (Some d)
    with None r show ?thesis
      by (auto simp: tryGetConstant_dag isConstant_dag split: option.splits if_splits sum.splits)
  qed
next
  case (Some a)
  assume r: "tryGetConstant fv n (v, t) = Inr (False, v', t')"
  show ?thesis
  proof (cases "as_ASTLiteral a")
    case None
    with Some r show ?thesis
      by (auto simp: tryGetConstant_nonliteral isConstant_nonliteral split: option.splits if_splits sum.splits)
  next
    case lit: (Some w)
    then obtain al where "a = ASTLiteral w al" by (auto dest: as_ASTLiteral_Some)
    with Some r show ?thesis
      by (auto simp: tryGetConstant_literal split: sum.splits)
  qed
qed

lemma not_constant_returns_false:
  "isConstant fv n = Inr False \<Longrightarrow> tryGetConstant fv n (v, t) = Inr (False, v, t)"
proof (cases "ast_node n")
  case None
  assume r: "isConstant fv n = Inr False"
  show ?thesis
  proof (cases "dag_node n")
    case dn: None
    with None r show ?thesis by (simp add: isConstant_null_node)
  next
    case (Some d)
    with None r show ?thesis
      by (auto simp: tryGetConstant_dag isConstant_dag split: option.splits if_splits sum.splits)
  qed
next
  case (Some a)
  assume r: "isConstant fv n = Inr False"
  show ?thesis
  proof (cases "as_ASTLiteral a")
    case None
    with Some r show ?thesis
      by (auto simp: tryGetConstant_nonliteral isConstant_nonliteral split: option.splits if_splits sum.splits)
  next
    case lit: (Some w)
    then obtain al where "a = ASTLiteral w al" by (auto dest: as_ASTLiteral_Some)
    with Some r show ?thesis
      by (auto simp: isConstant_literal)
  qed
qed

lemma nullability_dag:
  assumes "ast_node n = None" and "dag_node n = Some d"
    and "tryGetConstant fv n out = Inr (True, v, t)"
  shows "t = (if isNull v then result_type d else removeNullable (result_type d))"
  using assms
  by (auto simp: tryGetConstant_dag split: option.splits if_splits sum.splits)

lemma nullability_ast:
  assumes "ast_node n = Some a"
    and "tryGetConstant fv n out = Inr (True, v, t)"
  shows "\<exists>entry \<in> set (block_with_constants (tree_context n)).
             name entry = (if has (block_with_constants (tree_context n)) (ast_getColumnName fv a)
                           then ast_getColumnName fv a else ''_dummy'')
             \<and> t = (if isNull v then type entry else removeNullable (type entry))"
proof (cases "as_ASTLiteral a")
  case None
  with assms show ?thesis
    by (auto simp: tryGetConstant_nonliteral dest!: getByName_Inr
             split: option.splits if_splits sum.splits)
next
  case (Some w)
  then obtain al where "a = ASTLiteral w al" by (auto dest: as_ASTLiteral_Some)
  with assms show ?thesis
    by (auto simp: tryGetConstant_literal dest!: getByName_Inr split: sum.splits if_splits)
qed

section \<open>Prepared sets: the scan and the readiness test\<close>

lemma scan_sets_Some:
  "scan_sets m dts ss = Inr (Some s) \<Longrightarrow> s \<in> set ss \<and> types_match m dts s = Inr True"
  by (induction ss) (auto split: sum.splits bool.splits if_splits)

lemma types_match_per_position:
  "types_match m dts s = Inr b \<Longrightarrow> b = per_position_equal m dts s"
  by (auto simp: types_match_def per_position_equal_def areTypesEqual_def split: if_splits)

lemma types_match_total:
  "length m = length dts \<Longrightarrow> types_match m dts s = Inr (per_position_equal m dts s)"
  by (auto simp: types_match_def per_position_equal_def areTypesEqual_def split: if_splits)

lemma scan_sets_unique:
  assumes len: "length m = length dts"
    and ok: "per_position_equal m dts s"
  shows "s \<in> set ss \<Longrightarrow>
     (\<forall>s' \<in> set ss. per_position_equal m dts s' \<longrightarrow> s' = s) \<Longrightarrow>
     scan_sets m dts ss = Inr (Some s)"
proof (induction ss)
  case Nil
  then show ?case by simp
next
  case (Cons x xs)
  show ?case
  proof (cases "x = s")
    case True
    with ok len show ?thesis by (simp add: types_match_total)
  next
    case False
    with Cons.prems have nx: "\<not> per_position_equal m dts x" and mem: "s \<in> set xs"
      by auto
    from Cons.prems have "\<forall>s' \<in> set xs. per_position_equal m dts s' \<longrightarrow> s' = s"
      by simp
    with Cons.IH mem have "scan_sets m dts xs = Inr (Some s)" by blast
    with nx len show ?thesis by (simp add: types_match_total)
  qed
qed

lemma tryGetPreparedSet_mapping_ast:
  "\<not> is_subquery_or_table a \<Longrightarrow>
   tryGetPreparedSet_mapping th (RPNBuilderTreeNode_ast a ctx) m dts =
     (case prepared_sets ctx of
        None \<Rightarrow> Inl NullPointerDereference
      | Some sets \<Rightarrow> scan_sets m dts (getByTreeHash sets (th a)))"
  by (simp add: tryGetPreparedSet_mapping_def RPNBuilderTreeNode_ast_def split: option.splits)

lemma tryGetSetFromDAGNode_created: "tryGetSetFromDAGNode d = Some s \<Longrightarrow> isCreated s"
  by (auto split: option.splits Column.splits if_splits)

lemma tryGetPreparedSet_created: "tryGetPreparedSet th n = Some s \<Longrightarrow> isCreated s"
  by (auto simp: tryGetPreparedSet_def find_Some_iff dest: tryGetSetFromDAGNode_created
           simp del: tryGetSetFromDAGNode.simps split: option.splits)

section \<open>The claims\<close>

text \<open>
  C8. Alias transparency: wrapping an expression node \<open>e\<close> in an alias node does not change
  its canonical name. The canonical name of the alias node is the canonical name of \<open>e\<close>, in
  default mode and in legacy mode.
\<close>

theorem alias_transparency:
  "getColumnName fv (RPNBuilderTreeNode_dag (Node ALIAS [e] rn rt fb col) ctx)
     = getColumnName fv (RPNBuilderTreeNode_dag e ctx)
   \<and> getColumnNameWithModuloLegacy fv (RPNBuilderTreeNode_dag (Node ALIAS [e] rn rt fb col) ctx)
     = getColumnNameWithModuloLegacy fv (RPNBuilderTreeNode_dag e ctx)"
  by (simp add: getColumnName_def getColumnNameWithModuloLegacy_def RPNBuilderTreeNode_dag_def
        getColumnNameWithoutAlias_def)

text \<open>The example of the spec: an alias node wrapping \<open>arrayJoin(col)\<close>.\<close>

theorem alias_transparency_witness:
  "getColumnName (\<lambda>f. [])
     (RPNBuilderTreeNode_dag
        (Node ALIAS
           [Node ARRAY_JOIN [Node INPUT [] ''col'' (Plain TString) None None] ''a'' (Plain TString) None None]
           ''renamed'' (Plain TString) None None)
        \<lparr>block_with_constants = [], prepared_sets = None\<rparr>)
   = Inr ''arrayJoin(col)''"
  using alias_transparency
    [of "\<lambda>f. []"
        "Node ARRAY_JOIN [Node INPUT [] ''col'' (Plain TString) None None] ''a'' (Plain TString) None None"
        "''renamed''" "Plain TString" None None "\<lparr>block_with_constants = [], prepared_sets = None\<rparr>"]
  by (simp add: getColumnName_def RPNBuilderTreeNode_dag_def getColumnNameWithoutAlias_def)

text \<open>
  C7. Legacy renaming: the legacy-mode name renames every \<open>modulo\<close> application to
  \<open>moduleLegacy\<close>, throughout the expression, and leaves every other function name as it
  is; the default-mode name writes every function name as it is. In both representations:
  the legacy name is the default name of the renamed expression, and the default name of a
  function node starts with the function's own name.
\<close>

theorem legacy_renaming:
  "getColumnNameWithModuloLegacy fv (RPNBuilderTreeNode_dag d ctx)
     = getColumnName fv (RPNBuilderTreeNode_dag (renameModuloLegacy d) ctx)
   \<and> getColumnNameWithModuloLegacy fv (RPNBuilderTreeNode_ast a ctx)
     = getColumnName fv (RPNBuilderTreeNode_ast (moduloToModuloLegacyRecursive a) ctx)
   \<and> getColumnName fv (RPNBuilderTreeNode_dag (Node FUNCTION ch rn rt (Some f) col) ctx)
     = (case append_arguments True (map (\<lambda>arg. getColumnNameWithoutAlias fv arg False) ch) of
          Inl e \<Rightarrow> Inl e
        | Inr s \<Rightarrow> Inr (f @ ''('' @ s @ '')''))
   \<and> getColumnName fv (RPNBuilderTreeNode_ast (ASTFunction f args al) ctx)
     = Inr (f @ ''('' @ comma_join (map (ast_getColumnNameWithoutAlias fv) args) @ '')'')"
proof (intro conjI)
  show "getColumnNameWithModuloLegacy fv (RPNBuilderTreeNode_dag d ctx)
     = getColumnName fv (RPNBuilderTreeNode_dag (renameModuloLegacy d) ctx)"
    by (simp add: getColumnName_def getColumnNameWithModuloLegacy_def RPNBuilderTreeNode_dag_def
          getColumnNameWithoutAlias_def legacy_is_rename)
next
  show "getColumnNameWithModuloLegacy fv (RPNBuilderTreeNode_ast a ctx)
     = getColumnName fv (RPNBuilderTreeNode_ast (moduloToModuloLegacyRecursive a) ctx)"
    by (simp add: getColumnName_def getColumnNameWithModuloLegacy_def RPNBuilderTreeNode_ast_def)
next
  have "(\<lambda>arg. getColumnNameWithoutAlias fv arg False) = (\<lambda>arg. appendColumnNameWithoutAlias fv arg False)"
    by (simp add: getColumnNameWithoutAlias_def)
  then show "getColumnName fv (RPNBuilderTreeNode_dag (Node FUNCTION ch rn rt (Some f) col) ctx)
     = (case append_arguments True (map (\<lambda>arg. getColumnNameWithoutAlias fv arg False) ch) of
          Inl e \<Rightarrow> Inl e
        | Inr s \<Rightarrow> Inr (f @ ''('' @ s @ '')''))"
    by (simp add: getColumnName_def RPNBuilderTreeNode_dag_def getColumnNameWithoutAlias_def)
next
  show "getColumnName fv (RPNBuilderTreeNode_ast (ASTFunction f args al) ctx)
     = Inr (f @ ''('' @ comma_join (map (ast_getColumnNameWithoutAlias fv) args) @ '')'')"
    by (simp add: getColumnName_def RPNBuilderTreeNode_ast_def)
qed

text \<open>The example of the spec: \<open>modulo(x, 10)\<close>, in both representations.\<close>

theorem legacy_renaming_witness:
  "getColumnNameWithModuloLegacy (\<lambda>f. ''10'')
     (RPNBuilderTreeNode_dag
        (Node FUNCTION
           [Node INPUT [] ''x'' (Plain TUInt64) None None,
            Node COLUMN [] ''ten'' (Plain TUInt8) None (Some (ColumnConst (ColumnVector [UInt64 10]) 1))]
           ''r'' (Plain TUInt64) (Some ''modulo'') None)
        \<lparr>block_with_constants = [], prepared_sets = None\<rparr>)
     = Inr ''moduleLegacy(x, 10)''
   \<and> getColumnNameWithModuloLegacy (\<lambda>f. ''10'')
     (RPNBuilderTreeNode_ast
        (ASTFunction ''modulo'' [ASTIdentifier ''x'' [], ASTLiteral (UInt64 10) []] [])
        \<lparr>block_with_constants = [], prepared_sets = None\<rparr>)
     = Inr ''moduleLegacy(x, 10)''
   \<and> getColumnName (\<lambda>f. ''10'')
     (RPNBuilderTreeNode_dag
        (Node FUNCTION
           [Node INPUT [] ''x'' (Plain TUInt64) None None,
            Node COLUMN [] ''ten'' (Plain TUInt8) None (Some (ColumnConst (ColumnVector [UInt64 10]) 1))]
           ''r'' (Plain TUInt64) (Some ''modulo'') None)
        \<lparr>block_with_constants = [], prepared_sets = None\<rparr>)
     = Inr ''modulo(x, 10)''
   \<and> getColumnName (\<lambda>f. ''10'')
     (RPNBuilderTreeNode_ast
        (ASTFunction ''modulo'' [ASTIdentifier ''x'' [], ASTLiteral (UInt64 10) []] [])
        \<lparr>block_with_constants = [], prepared_sets = None\<rparr>)
     = Inr ''modulo(x, 10)''"
  using legacy_renaming
    [of "\<lambda>f. ''10''"
        "Node FUNCTION
           [Node INPUT [] ''x'' (Plain TUInt64) None None,
            Node COLUMN [] ''ten'' (Plain TUInt8) None (Some (ColumnConst (ColumnVector [UInt64 10]) 1))]
           ''r'' (Plain TUInt64) (Some ''modulo'') None"
        "\<lparr>block_with_constants = [], prepared_sets = None\<rparr>"
        "ASTFunction ''modulo'' [ASTIdentifier ''x'' [], ASTLiteral (UInt64 10) []] []"
        "[Node INPUT [] ''x'' (Plain TUInt64) None None,
          Node COLUMN [] ''ten'' (Plain TUInt8) None (Some (ColumnConst (ColumnVector [UInt64 10]) 1))]"
        "''r''" "Plain TUInt64" "''modulo''" None
        "[ASTIdentifier ''x'' [], ASTLiteral (UInt64 10) []]" "[]"]
  by (simp add: getColumnName_def RPNBuilderTreeNode_dag_def RPNBuilderTreeNode_ast_def
        getColumnNameWithoutAlias_def)

text \<open>
  C4. Representation equivalence: for an expression given in both representations, the
  canonical name computed from the syntax-tree node and the one computed from the
  action-graph node are the same string, in default mode.
\<close>

theorem representation_equivalence:
  assumes "same_expression a d"
  shows "getColumnName fv (RPNBuilderTreeNode_ast a ctx) = getColumnName fv (RPNBuilderTreeNode_dag d ctx)"
  using same_expression_name [OF assms, of fv]
  by (simp add: getColumnName_def RPNBuilderTreeNode_ast_def RPNBuilderTreeNode_dag_def
        getColumnNameWithoutAlias_def)

theorem representation_equivalence_witness:
  "same_expression
     (ASTFunction ''modulo'' [ASTIdentifier ''x'' [], ASTLiteral (UInt64 10) ''ten''] [])
     (Node FUNCTION
        [Node ALIAS [Node INPUT [] ''x'' (Plain TUInt64) None None] ''y'' (Plain TUInt64) None None,
         Node COLUMN [] ''ten'' (Plain TUInt8) None (Some (ColumnConst (ColumnVector [UInt64 10]) 1))]
        ''r'' (Plain TUInt64) (Some ''modulo'') None)
   \<and> getColumnName (\<lambda>f. ''10'')
        (RPNBuilderTreeNode_ast
           (ASTFunction ''modulo'' [ASTIdentifier ''x'' [], ASTLiteral (UInt64 10) ''ten''] [])
           \<lparr>block_with_constants = [], prepared_sets = None\<rparr>)
      = getColumnName (\<lambda>f. ''10'')
        (RPNBuilderTreeNode_dag
           (Node FUNCTION
              [Node ALIAS [Node INPUT [] ''x'' (Plain TUInt64) None None] ''y'' (Plain TUInt64) None None,
               Node COLUMN [] ''ten'' (Plain TUInt8) None (Some (ColumnConst (ColumnVector [UInt64 10]) 1))]
              ''r'' (Plain TUInt64) (Some ''modulo'') None)
           \<lparr>block_with_constants = [], prepared_sets = None\<rparr>)"
proof -
  have h: "same_expression
     (ASTFunction ''modulo'' [ASTIdentifier ''x'' [], ASTLiteral (UInt64 10) ''ten''] [])
     (Node FUNCTION
        [Node ALIAS [Node INPUT [] ''x'' (Plain TUInt64) None None] ''y'' (Plain TUInt64) None None,
         Node COLUMN [] ''ten'' (Plain TUInt8) None (Some (ColumnConst (ColumnVector [UInt64 10]) 1))]
        ''r'' (Plain TUInt64) (Some ''modulo'') None)"
    by (intro se_function se_alias se_identifier se_literal list.rel_intros) simp
  from h representation_equivalence [OF h] show ?thesis by blast
qed

text \<open>
  C10. Whenever \<open>tryGetConstant\<close> returns false, the two output parameters are as the caller
  passed them, and nothing is thrown: a node that is not a constant (\<open>isConstant\<close> is false)
  makes \<open>tryGetConstant\<close> return false with the outputs unchanged, and a false result only
  arises for such a node.
\<close>

theorem tryGetConstant_false_frame:
  "(tryGetConstant fv n (v, t) = Inr (False, v', t') \<longrightarrow>
      v' = v \<and> t' = t \<and> isConstant fv n = Inr False)
   \<and> (isConstant fv n = Inr False \<longrightarrow> tryGetConstant fv n (v, t) = Inr (False, v, t))"
  using tryGetConstant_false_unchanged not_constant_returns_false by blast

text \<open>An identifier that the constant block does not know, and outputs that the call must keep.\<close>

theorem tryGetConstant_false_frame_witness:
  "isConstant (\<lambda>f. [])
     (RPNBuilderTreeNode_ast (ASTIdentifier ''x'' [])
        \<lparr>block_with_constants = [], prepared_sets = None\<rparr>) = Inr False
   \<and> tryGetConstant (\<lambda>f. [])
     (RPNBuilderTreeNode_ast (ASTIdentifier ''x'' [])
        \<lparr>block_with_constants = [], prepared_sets = None\<rparr>)
     (UInt64 7, Nullable TInt64) = Inr (False, UInt64 7, Nullable TInt64)"
proof -
  have h: "isConstant (\<lambda>f. [])
     (RPNBuilderTreeNode_ast (ASTIdentifier ''x'' [])
        \<lparr>block_with_constants = [], prepared_sets = None\<rparr>) = Inr False"
    by (simp add: isConstant_def RPNBuilderTreeNode_ast_def has_def)
  from h tryGetConstant_false_frame
    [of "\<lambda>f. []"
        "RPNBuilderTreeNode_ast (ASTIdentifier ''x'' []) \<lparr>block_with_constants = [], prepared_sets = None\<rparr>"
        "UInt64 7" "Nullable TInt64" "UInt64 7" "Nullable TInt64"]
  show ?thesis by blast
qed

text \<open>
  C9. Whenever \<open>tryGetConstant\<close> returns true: a non-null value comes with a type that has
  no nullable wrapper, and a null value comes with the stored or declared type unchanged. The
  stored type is the declared result type of an action-graph node, and for a syntax-tree node
  the type of the block entry under the node's column name (for a literal absent from the
  block, under \<open>_dummy\<close>).
\<close>

theorem tryGetConstant_nullability:
  assumes "tryGetConstant fv n out = Inr (True, v, t)"
  shows "(\<not> isNull v \<longrightarrow> \<not> isNullable t)
    \<and> (\<forall>d. ast_node n = None \<and> dag_node n = Some d \<longrightarrow>
          t = (if isNull v then result_type d else removeNullable (result_type d)))
    \<and> (\<forall>a. ast_node n = Some a \<longrightarrow>
          (\<exists>entry \<in> set (block_with_constants (tree_context n)).
             name entry = (if has (block_with_constants (tree_context n)) (ast_getColumnName fv a)
                           then ast_getColumnName fv a else ''_dummy'')
             \<and> t = (if isNull v then type entry else removeNullable (type entry))))"
proof (intro conjI allI impI)
  assume nn: "\<not> isNull v"
  show "\<not> isNullable t"
  proof (cases "ast_node n")
    case None
    show ?thesis
    proof (cases "dag_node n")
      case dn: None
      with None assms show ?thesis by (simp add: tryGetConstant_null_node)
    next
      case (Some d)
      from nullability_dag [OF None Some assms] nn show ?thesis
        by (simp add: not_isNullable_removeNullable)
    qed
  next
    case (Some a)
    from nullability_ast [OF Some assms] nn show ?thesis
      by (auto simp: not_isNullable_removeNullable)
  qed
next
  fix d assume "ast_node n = None \<and> dag_node n = Some d"
  then show "t = (if isNull v then result_type d else removeNullable (result_type d))"
    using nullability_dag assms by blast
next
  fix a assume "ast_node n = Some a"
  then show "\<exists>entry \<in> set (block_with_constants (tree_context n)).
             name entry = (if has (block_with_constants (tree_context n)) (ast_getColumnName fv a)
                           then ast_getColumnName fv a else ''_dummy'')
             \<and> t = (if isNull v then type entry else removeNullable (type entry))"
    using nullability_ast assms by blast
qed

text \<open>A constant column declared nullable that holds the value 5: the type returned is not nullable.\<close>

theorem tryGetConstant_nullability_witness:
  "tryGetConstant (\<lambda>f. [])
     (RPNBuilderTreeNode_dag
        (Node COLUMN [] ''c'' (Nullable TUInt64) None (Some (ColumnConst (ColumnVector [UInt64 5]) 1)))
        \<lparr>block_with_constants = [], prepared_sets = None\<rparr>)
     (Null, Plain TNothing) = Inr (True, UInt64 5, Plain TUInt64)
   \<and> \<not> isNull (UInt64 5) \<and> \<not> isNullable (Plain TUInt64)"
proof -
  have h: "tryGetConstant (\<lambda>f. [])
     (RPNBuilderTreeNode_dag
        (Node COLUMN [] ''c'' (Nullable TUInt64) None (Some (ColumnConst (ColumnVector [UInt64 5]) 1)))
        \<lparr>block_with_constants = [], prepared_sets = None\<rparr>)
     (Null, Plain TNothing) = Inr (True, UInt64 5, Plain TUInt64)"
    by (simp add: tryGetConstant_def RPNBuilderTreeNode_dag_def isNull_def)
  have nn: "\<not> isNull (UInt64 5)" by (simp add: isNull_def)
  from tryGetConstant_nullability [OF h] h nn show ?thesis by blast
qed

text \<open>
  C2, as the code has it. In \<open>tryGetConstant\<close> on a syntax-tree node whose column name is
  absent from the constant block, while the block has the default entry \<open>_dummy\<close>: a literal
  falls back to \<open>_dummy\<close> and is extracted, with the type of that entry (its nullable wrapper
  removed when the value is not null); any other node gets no fallback, and the result is
  false with the outputs unchanged.
\<close>

theorem literal_dummy_fallback:
  assumes "ast_node n = Some a"
    and "\<not> has (block_with_constants (tree_context n)) (ast_getColumnName fv a)"
    and "getByName (block_with_constants (tree_context n)) ''_dummy'' = Inr entry"
  shows "tryGetConstant fv n out =
     (case a of
        ASTLiteral v al \<Rightarrow>
          Inr (True, v, if isNull v then type entry else removeNullable (type entry))
      | _ \<Rightarrow> Inr (False, fst out, snd out))"
proof (cases "as_ASTLiteral a")
  case None
  with assms show ?thesis
    by (cases a) (simp_all add: tryGetConstant_nonliteral)
next
  case (Some w)
  then obtain al where "a = ASTLiteral w al" by (auto dest: as_ASTLiteral_Some)
  with assms show ?thesis
    by (simp add: tryGetConstant_literal)
qed

theorem literal_dummy_fallback_witness:
  "\<not> has [\<lparr>column = Some (ColumnConst (ColumnVector [UInt64 0]) 1), type = Nullable TUInt8, name = ''_dummy''\<rparr>] ''5''
   \<and> tryGetConstant (\<lambda>f. ''5'')
     (RPNBuilderTreeNode_ast (ASTLiteral (UInt64 5) [])
        \<lparr>block_with_constants =
           [\<lparr>column = Some (ColumnConst (ColumnVector [UInt64 0]) 1), type = Nullable TUInt8, name = ''_dummy''\<rparr>],
         prepared_sets = None\<rparr>)
     (Null, Plain TNothing) = Inr (True, UInt64 5, Plain TUInt8)"
proof -
  have a: "ast_node (RPNBuilderTreeNode_ast (ASTLiteral (UInt64 5) [])
        \<lparr>block_with_constants =
           [\<lparr>column = Some (ColumnConst (ColumnVector [UInt64 0]) 1), type = Nullable TUInt8, name = ''_dummy''\<rparr>],
         prepared_sets = None\<rparr>) = Some (ASTLiteral (UInt64 5) [])"
    by (simp add: RPNBuilderTreeNode_ast_def)
  have b: "\<not> has (block_with_constants (tree_context (RPNBuilderTreeNode_ast (ASTLiteral (UInt64 5) [])
        \<lparr>block_with_constants =
           [\<lparr>column = Some (ColumnConst (ColumnVector [UInt64 0]) 1), type = Nullable TUInt8, name = ''_dummy''\<rparr>],
         prepared_sets = None\<rparr>))) (ast_getColumnName (\<lambda>f. ''5'') (ASTLiteral (UInt64 5) []))"
    by (simp add: RPNBuilderTreeNode_ast_def has_def ast_getColumnName_def)
  have c: "getByName (block_with_constants (tree_context (RPNBuilderTreeNode_ast (ASTLiteral (UInt64 5) [])
        \<lparr>block_with_constants =
           [\<lparr>column = Some (ColumnConst (ColumnVector [UInt64 0]) 1), type = Nullable TUInt8, name = ''_dummy''\<rparr>],
         prepared_sets = None\<rparr>))) ''_dummy''
      = Inr \<lparr>column = Some (ColumnConst (ColumnVector [UInt64 0]) 1), type = Nullable TUInt8, name = ''_dummy''\<rparr>"
    by (simp add: RPNBuilderTreeNode_ast_def getByName_def)
  from literal_dummy_fallback [OF a b c, of "(Null, Plain TNothing)"]
  show ?thesis by (simp add: has_def isNull_def)
qed

text \<open>
  C2, as the spec states it, fails: an identifier whose name is absent from a block that holds
  a constant \<open>_dummy\<close> column is not extracted under the default key.
\<close>

theorem nonliteral_dummy_fallback_counterexample:
  "\<not> has [\<lparr>column = Some (ColumnConst (ColumnVector [UInt64 0]) 1), type = Plain TUInt8, name = ''_dummy''\<rparr>] ''x''
   \<and> has [\<lparr>column = Some (ColumnConst (ColumnVector [UInt64 0]) 1), type = Plain TUInt8, name = ''_dummy''\<rparr>] ''_dummy''
   \<and> tryGetConstant (\<lambda>f. [])
     (RPNBuilderTreeNode_ast (ASTIdentifier ''x'' [])
        \<lparr>block_with_constants =
           [\<lparr>column = Some (ColumnConst (ColumnVector [UInt64 0]) 1), type = Plain TUInt8, name = ''_dummy''\<rparr>],
         prepared_sets = None\<rparr>)
     (Null, Plain TNothing) = Inr (False, Null, Plain TNothing)"
  by (simp add: tryGetConstant_def RPNBuilderTreeNode_ast_def has_def ast_getColumnName_def)

text \<open>
  C5. Type-matching lookup: on a syntax-tree node that is neither a subquery nor a table
  reference, the third overload returns a set only if, at every position of the key mapping,
  the set's element type at the mapped tuple index equals the expected type of that position;
  and when exactly one of the registry entries with the node's hash satisfies this, that
  entry is the one returned.
\<close>

theorem type_matching_lookup:
  assumes "\<not> is_subquery_or_table a"
  shows "(tryGetPreparedSet_mapping th (RPNBuilderTreeNode_ast a ctx) m dts = Inr (Some s) \<longrightarrow>
            per_position_equal m dts s)
    \<and> (\<forall>sets. prepared_sets ctx = Some sets \<and> length m = length dts
          \<and> s \<in> set (getByTreeHash sets (th a)) \<and> per_position_equal m dts s
          \<and> (\<forall>s' \<in> set (getByTreeHash sets (th a)). per_position_equal m dts s' \<longrightarrow> s' = s)
        \<longrightarrow> tryGetPreparedSet_mapping th (RPNBuilderTreeNode_ast a ctx) m dts = Inr (Some s))"
proof (intro conjI allI impI)
  assume "tryGetPreparedSet_mapping th (RPNBuilderTreeNode_ast a ctx) m dts = Inr (Some s)"
  with assms obtain sets where "scan_sets m dts (getByTreeHash sets (th a)) = Inr (Some s)"
    by (auto simp: tryGetPreparedSet_mapping_ast split: option.splits)
  then have "types_match m dts s = Inr True" by (simp add: scan_sets_Some)
  then show "per_position_equal m dts s" by (auto dest: types_match_per_position)
next
  fix sets
  assume h: "prepared_sets ctx = Some sets \<and> length m = length dts
          \<and> s \<in> set (getByTreeHash sets (th a)) \<and> per_position_equal m dts s
          \<and> (\<forall>s' \<in> set (getByTreeHash sets (th a)). per_position_equal m dts s' \<longrightarrow> s' = s)"
  then have "scan_sets m dts (getByTreeHash sets (th a)) = Inr (Some s)"
    using scan_sets_unique [of m dts s "getByTreeHash sets (th a)"] by blast
  with assms h show "tryGetPreparedSet_mapping th (RPNBuilderTreeNode_ast a ctx) m dts = Inr (Some s)"
    by (simp add: tryGetPreparedSet_mapping_ast)
qed

text \<open>Two entries under the hash of the node; only the second has the expected element type.\<close>

theorem type_matching_lookup_witness:
  "tryGetPreparedSet_mapping (\<lambda>a. 7)
     (RPNBuilderTreeNode_ast (ASTFunction ''tuple'' [ASTLiteral (UInt64 1) []] [])
        \<lparr>block_with_constants = [],
         prepared_sets = Some
           [(forLiteral 7 [Plain TString], \<lparr>data_types = [Plain TString], isCreated = True\<rparr>),
            (forLiteral 7 [Plain TUInt64], \<lparr>data_types = [Plain TUInt64], isCreated = True\<rparr>)]\<rparr>)
     [\<lparr>tuple_index = 0, key_index = 0\<rparr>] [Plain TUInt64]
   = Inr (Some \<lparr>data_types = [Plain TUInt64], isCreated = True\<rparr>)
   \<and> per_position_equal [\<lparr>tuple_index = 0, key_index = 0\<rparr>] [Plain TUInt64]
        \<lparr>data_types = [Plain TUInt64], isCreated = True\<rparr>
   \<and> \<not> per_position_equal [\<lparr>tuple_index = 0, key_index = 0\<rparr>] [Plain TUInt64]
        \<lparr>data_types = [Plain TString], isCreated = True\<rparr>"
proof -
  have na: "\<not> is_subquery_or_table (ASTFunction ''tuple'' [ASTLiteral (UInt64 1) []] [])"
    by simp
  have ok: "per_position_equal [\<lparr>tuple_index = 0, key_index = 0\<rparr>] [Plain TUInt64]
        \<lparr>data_types = [Plain TUInt64], isCreated = True\<rparr>"
    by (simp add: per_position_equal_def)
  have no: "\<not> per_position_equal [\<lparr>tuple_index = 0, key_index = 0\<rparr>] [Plain TUInt64]
        \<lparr>data_types = [Plain TString], isCreated = True\<rparr>"
    by (simp add: per_position_equal_def)
  have sets: "getByTreeHash
           [(forLiteral 7 [Plain TString], \<lparr>data_types = [Plain TString], isCreated = True\<rparr>),
            (forLiteral 7 [Plain TUInt64], \<lparr>data_types = [Plain TUInt64], isCreated = True\<rparr>)] 7
        = [\<lparr>data_types = [Plain TString], isCreated = True\<rparr>,
           \<lparr>data_types = [Plain TUInt64], isCreated = True\<rparr>]"
    by (simp add: getByTreeHash_def forLiteral_def)
  from type_matching_lookup [OF na,
      of "\<lambda>a. 7"
         "\<lparr>block_with_constants = [],
           prepared_sets = Some
             [(forLiteral 7 [Plain TString], \<lparr>data_types = [Plain TString], isCreated = True\<rparr>),
              (forLiteral 7 [Plain TUInt64], \<lparr>data_types = [Plain TUInt64], isCreated = True\<rparr>)]\<rparr>"
         "[\<lparr>tuple_index = 0, key_index = 0\<rparr>]" "[Plain TUInt64]"
         "\<lparr>data_types = [Plain TUInt64], isCreated = True\<rparr>"]
    ok no sets
  show ?thesis by auto
qed

text \<open>
  C1. The readiness gate: no overload of \<open>tryGetPreparedSet\<close> returns a set whose created
  flag is false. The first overload and \<open>tryGetSetFromDAGNode\<close> test the flag
  (\<open>tryGetPreparedSet_created\<close>, \<open>tryGetSetFromDAGNode_created\<close>); the scan of the third
  overload does not. Evaluated on a registry whose only entry under the node's hash has the
  expected element type and is not created yet: the third overload returns that set, where
  the first overload returns nothing.
\<close>

theorem third_overload_returns_unready_set:
  "tryGetPreparedSet_mapping (\<lambda>a. 7)
     (RPNBuilderTreeNode_ast (ASTFunction ''tuple'' [ASTLiteral (UInt64 1) []] [])
        \<lparr>block_with_constants = [],
         prepared_sets = Some
           [(forLiteral 7 [Plain TUInt64], \<lparr>data_types = [Plain TUInt64], isCreated = False\<rparr>)]\<rparr>)
     [\<lparr>tuple_index = 0, key_index = 0\<rparr>] [Plain TUInt64]
   = Inr (Some \<lparr>data_types = [Plain TUInt64], isCreated = False\<rparr>)
   \<and> tryGetPreparedSet (\<lambda>a. 7)
     (RPNBuilderTreeNode_ast (ASTFunction ''tuple'' [ASTLiteral (UInt64 1) []] [])
        \<lparr>block_with_constants = [],
         prepared_sets = Some
           [(forLiteral 7 [Plain TUInt64], \<lparr>data_types = [Plain TUInt64], isCreated = False\<rparr>)]\<rparr>)
   = None"
  by (simp add: tryGetPreparedSet_mapping_def tryGetPreparedSet_def RPNBuilderTreeNode_ast_def
        getByTreeHash_def forLiteral_def types_match_def areTypesEqual_def)

text \<open>
  C3. \<open>getConstantColumn\<close> does not fail when \<open>isConstant\<close> is true, and for a syntax-tree
  constant that is not a literal it returns the constant-block entry. Evaluated on a function
  call whose name the constant block holds with a constant column: \<open>isConstant\<close> is true, the
  block has the entry, and \<open>getConstantColumn\<close> fails in \<open>assert_cast\<close> before the lookup.
\<close>

theorem getConstantColumn_fails_on_block_constant:
  "isConstant (\<lambda>f. [])
     (RPNBuilderTreeNode_ast (ASTFunction ''now'' [] [])
        \<lparr>block_with_constants =
           [\<lparr>column = Some (ColumnConst (ColumnVector [UInt64 1700000000]) 1), type = Plain TUInt64, name = ''now()''\<rparr>],
         prepared_sets = None\<rparr>)
   = Inr True
   \<and> getByName
        [\<lparr>column = Some (ColumnConst (ColumnVector [UInt64 1700000000]) 1), type = Plain TUInt64, name = ''now()''\<rparr>]
        (ast_getColumnName (\<lambda>f. []) (ASTFunction ''now'' [] []))
   = Inr \<lparr>column = Some (ColumnConst (ColumnVector [UInt64 1700000000]) 1), type = Plain TUInt64, name = ''now()''\<rparr>
   \<and> getConstantColumn (\<lambda>f. []) (\<lambda>f. Plain TUInt64)
     (RPNBuilderTreeNode_ast (ASTFunction ''now'' [] [])
        \<lparr>block_with_constants =
           [\<lparr>column = Some (ColumnConst (ColumnVector [UInt64 1700000000]) 1), type = Plain TUInt64, name = ''now()''\<rparr>],
         prepared_sets = None\<rparr>)
   = Inl BAD_CAST"
  by (simp add: getConstantColumn_def isConstant_def RPNBuilderTreeNode_ast_def has_def
        getByName_def ast_getColumnName_def assert_cast_ASTLiteral_def)

text \<open>
  C6. The third overload returns an empty result, not a fault, for every well-formed node.
  Evaluated on a syntax-tree node whose tree context holds no registry: the node is
  well-formed, the first two overloads return nothing, and the third dereferences the null
  \<open>dag_node\<close>. An action-graph node without a column does get the empty result.
\<close>

theorem third_overload_faults_without_registry:
  "well_formed (RPNBuilderTreeNode_ast (ASTLiteral (UInt64 1) [])
        \<lparr>block_with_constants = [], prepared_sets = None\<rparr>)
   \<and> tryGetPreparedSet_mapping (\<lambda>a. 7)
        (RPNBuilderTreeNode_ast (ASTLiteral (UInt64 1) [])
           \<lparr>block_with_constants = [], prepared_sets = None\<rparr>)
        [\<lparr>tuple_index = 0, key_index = 0\<rparr>] [Plain TUInt64]
      = Inl NullPointerDereference
   \<and> tryGetPreparedSet (\<lambda>a. 7)
        (RPNBuilderTreeNode_ast (ASTLiteral (UInt64 1) [])
           \<lparr>block_with_constants = [], prepared_sets = None\<rparr>)
      = None
   \<and> tryGetPreparedSet_types (\<lambda>a. 7)
        (RPNBuilderTreeNode_ast (ASTLiteral (UInt64 1) [])
           \<lparr>block_with_constants = [], prepared_sets = None\<rparr>)
        [Plain TUInt64]
      = None
   \<and> tryGetPreparedSet_mapping (\<lambda>a. 7)
        (RPNBuilderTreeNode_dag (Node INPUT [] ''x'' (Plain TUInt64) None None)
           \<lparr>block_with_constants = [], prepared_sets = None\<rparr>)
        [\<lparr>tuple_index = 0, key_index = 0\<rparr>] [Plain TUInt64]
      = Inr None"
  by (simp add: well_formed_def tryGetPreparedSet_mapping_def tryGetPreparedSet_def
        tryGetPreparedSet_types_def RPNBuilderTreeNode_ast_def RPNBuilderTreeNode_dag_def)

end
